theory Spec2Isabelle
  imports Complex_Main
begin

section \<open>En-Route backend: the real-time coordinator and the order and wallet routes\<close>

text \<open>
  A shallow embedding of \<^verbatim>\<open>src/en-route/backend/server.js\<close>: the socket handlers
  that maintain the two in-memory maps \<^verbatim>\<open>driverPositions\<close> and \<^verbatim>\<open>activeOrders\<close>
  (lines 75-197), the haversine helper (lines 624-634), the price computation of
  \<^verbatim>\<open>POST /api/orders\<close> (lines 1100-1110), \<^verbatim>\<open>PUT /api/orders/:id/status\<close>
  (lines 1349-1417) and \<^verbatim>\<open>POST /api/admin/confirm-recharge/:transactionId\<close>
  (lines 1661-1694).

  Conventions. A JavaScript \<^verbatim>\<open>Number\<close> is modelled as a real: the IEEE rounding of
  each operation and the infinities are not modelled. NaN is modelled where it decides what
  a route answers and writes, in the status route. Identifiers (driver, order,
  user, transaction and socket ids) are strings. \<^verbatim>\<open>new Date()\<close> is a parameter
  \<open>now\<close>, \<^verbatim>\<open>Math.random()\<close> a parameter \<open>rnd\<close>. The calls to the durable
  store are taken to go through: a store that is down is not modelled.
\<close>

subsection \<open>JavaScript values and truthiness\<close>

text \<open>
  The fields of an inbound socket payload are untyped: a field can be absent
  (\<^verbatim>\<open>undefined\<close>) or carry any JSON scalar.
\<close>

datatype jsval = Undefined | Null | JBool bool | JNum real | JStr string

fun truthy :: "jsval \<Rightarrow> bool" where
  "truthy Undefined = False"
| "truthy Null = False"
| "truthy (JBool b) = b"
| "truthy (JNum x) = (x \<noteq> 0)"
| "truthy (JStr s) = (s \<noteq> [])"

text \<open>\<^verbatim>\<open>a || b\<close>: the left operand when it is truthy, the right one otherwise.\<close>

definition js_or :: "jsval \<Rightarrow> jsval \<Rightarrow> jsval" where
  "js_or a b = (if truthy a then a else b)"

text \<open>
  The same operator on a numeric field of a stored document, which is either missing
  (\<^verbatim>\<open>undefined\<close> or \<^verbatim>\<open>null\<close>, here \<open>None\<close>) or a number.
\<close>

fun num_truthy :: "real option \<Rightarrow> bool" where
  "num_truthy None = False"
| "num_truthy (Some x) = (x \<noteq> 0)"

fun num_or :: "real option \<Rightarrow> real \<Rightarrow> real" where
  "num_or None d = d"
| "num_or (Some x) d = (if x \<noteq> 0 then x else d)"

text \<open>\<^verbatim>\<open>Math.round\<close>: the nearest integer, a tie going up.\<close>

definition Math_round :: "real \<Rightarrow> real" where
  "Math_round x = of_int \<lfloor>x + 1 / 2\<rfloor>"

subsection \<open>A JavaScript Map\<close>

text \<open>
  \<^verbatim>\<open>new Map()\<close> keeps its entries in insertion order; \<^verbatim>\<open>set\<close> on a key already
  present replaces the value in place, on a new key it appends. The map is an association
  list in that order.
\<close>

fun map_set :: "('k \<times> 'v) list \<Rightarrow> 'k \<Rightarrow> 'v \<Rightarrow> ('k \<times> 'v) list" where
  "map_set [] k v = [(k, v)]"
| "map_set ((k', v') # m) k v = (if k' = k then (k, v) # m else (k', v') # map_set m k v)"

definition map_get :: "('k \<times> 'v) list \<Rightarrow> 'k \<Rightarrow> 'v option" where
  "map_get m k = map_of m k"

definition map_keys :: "('k \<times> 'v) list \<Rightarrow> 'k list" where
  "map_keys m = map fst m"

definition map_values :: "('k \<times> 'v) list \<Rightarrow> 'v list" where
  "map_values m = map snd m"

subsection \<open>The in-memory state and the socket handlers\<close>

text \<open>The object stored per driver in \<^verbatim>\<open>driverPositions\<close> (lines 85-94).\<close>

record position =
  lat :: jsval
  lon :: jsval
  speed :: jsval
  heading :: jsval
  battery :: jsval
  isOnline :: bool
  lastUpdate :: nat
  socketId :: string

text \<open>The object stored per order in \<^verbatim>\<open>activeOrders\<close> (lines 139-145).\<close>

record session =
  orderId :: string
  driverId :: string
  driverSocketId :: string
  clientSocketId :: "string option"
  status :: string

record server =
  driverPositions :: "(string \<times> position) list"
  activeOrders :: "(string \<times> session) list"

definition initial_server :: server where
  "initial_server = \<lparr>driverPositions = [], activeOrders = []\<rparr>"

text \<open>The payload of \<^verbatim>\<open>driver:location\<close> (line 83).\<close>

record location_data =
  data_driverId :: string
  data_lat :: jsval
  data_lon :: jsval
  data_speed :: jsval
  data_heading :: jsval
  data_battery :: jsval
  data_isOnline :: jsval

text \<open>What a handler sends out, and the sampled write to the user's stored location.\<close>

datatype payload =
    DriversUpdate string position
  | OrderDriverLocation string jsval jsval jsval jsval
  | OrderStatus string string

datatype emit =
    BroadcastExcept string payload
  | EmitTo "string option" payload
  | EmitAll payload
  | UserLocationWrite string jsval jsval nat

text \<open>\<^verbatim>\<open>socket.on('driver:location', ...)\<close>, lines 82-124.\<close>

definition driver_location ::
  "string \<Rightarrow> nat \<Rightarrow> real \<Rightarrow> location_data \<Rightarrow> server \<Rightarrow> server \<times> emit list" where
  "driver_location socket_id now rnd data st =
    (let position = \<lparr>lat = data_lat data,
                      lon = data_lon data,
                      speed = js_or (data_speed data) (JNum 0),
                      heading = js_or (data_heading data) (JNum 0),
                      battery = js_or (data_battery data) (JNum 100),
                      isOnline = (data_isOnline data \<noteq> JBool False),
                      lastUpdate = now,
                      socketId = socket_id\<rparr>;
         st' = st\<lparr>driverPositions :=
                    map_set (driverPositions st) (data_driverId data) position\<rparr>;
         db = (if rnd < 1 / 10
               then [UserLocationWrite (data_driverId data) (data_lat data) (data_lon data) now]
               else []);
         bc = [BroadcastExcept socket_id (DriversUpdate (data_driverId data) position)];
         tg = (case find (\<lambda>ao. driverId ao = data_driverId data) (map_values (activeOrders st')) of
                 None \<Rightarrow> []
               | Some activeOrder \<Rightarrow>
                   [EmitTo (clientSocketId activeOrder)
                      (OrderDriverLocation (orderId activeOrder) (data_lat data) (data_lon data)
                         (data_speed data) (data_heading data))])
     in (st', db @ bc @ tg))"

text \<open>\<^verbatim>\<open>socket.on('order:track', ...)\<close>, lines 127-134.\<close>

definition order_track :: "string \<Rightarrow> string \<Rightarrow> server \<Rightarrow> server" where
  "order_track socket_id order_id st =
    (case map_get (activeOrders st) order_id of
       None \<Rightarrow> st
     | Some order \<Rightarrow>
         st\<lparr>activeOrders :=
              map_set (activeOrders st) order_id (order\<lparr>clientSocketId := Some socket_id\<rparr>)\<rparr>)"

text \<open>\<^verbatim>\<open>socket.on('driver:accept_order', ...)\<close>, lines 137-146.\<close>

definition driver_accept_order :: "string \<Rightarrow> string \<Rightarrow> string \<Rightarrow> server \<Rightarrow> server" where
  "driver_accept_order socket_id order_id driver_id st =
    st\<lparr>activeOrders :=
         map_set (activeOrders st) order_id
           \<lparr>orderId = order_id,
            driverId = driver_id,
            driverSocketId = socket_id,
            clientSocketId = None,
            status = ''accepted''\<rparr>\<rparr>"

text \<open>
  \<^verbatim>\<open>socket.on('disconnect', ...)\<close>, lines 185-196: the loop over the entries of
  \<^verbatim>\<open>driverPositions\<close>. The loop writes only keys it is visiting, so the entries
  still to visit are those of the map at the start.
\<close>

fun disconnect_loop ::
  "string \<Rightarrow> (string \<times> position) list \<Rightarrow> (string \<times> position) list \<Rightarrow> emit list
     \<Rightarrow> (string \<times> position) list \<times> emit list" where
  "disconnect_loop socket_id [] m out = (m, out)"
| "disconnect_loop socket_id ((driver_id, pos) # rest) m out =
     (if socketId pos = socket_id
      then (let pos' = pos\<lparr>isOnline := False\<rparr>
            in disconnect_loop socket_id rest (map_set m driver_id pos')
                 (out @ [EmitAll (DriversUpdate driver_id pos')]))
      else disconnect_loop socket_id rest m out)"

definition disconnect :: "string \<Rightarrow> server \<Rightarrow> server \<times> emit list" where
  "disconnect socket_id st =
    (let (m, out) = disconnect_loop socket_id (driverPositions st) (driverPositions st) []
     in (st\<lparr>driverPositions := m\<rparr>, out))"

text \<open>
  The inbound events that write one of the two maps. (\<^verbatim>\<open>chat:message\<close> and the HTTP
  routes only read them: lines 166, 882, 935, 1139 and 1586.)
\<close>

datatype event =
    Location string nat real location_data
  | Track string string
  | Accept string string string
  | Disconnect string

fun step :: "event \<Rightarrow> server \<Rightarrow> server" where
  "step (Location socket_id now rnd data) st = fst (driver_location socket_id now rnd data st)"
| "step (Track socket_id order_id) st = order_track socket_id order_id st"
| "step (Accept socket_id order_id driver_id) st = driver_accept_order socket_id order_id driver_id st"
| "step (Disconnect socket_id) st = fst (disconnect socket_id st)"

fun run :: "event list \<Rightarrow> server \<Rightarrow> server" where
  "run [] st = st"
| "run (e # es) st = run es (step e st)"

subsection \<open>The haversine distance\<close>

text \<open>
  \<^verbatim>\<open>Math.atan2(y, x)\<close> on reals (signed zeros are not modelled), and
  \<^verbatim>\<open>calculateDistance\<close>, lines 624-634, on real arguments: the value the function
  has when all four coordinates are numbers and the double-precision evaluation does not end
  in NaN. The cases in which it does are the matter of \<open>calculateDistance_js\<close> below.
\<close>

definition atan2 :: "real \<Rightarrow> real \<Rightarrow> real" where
  "atan2 y x =
    (if 0 < x then arctan (y / x)
     else if x < 0 then (if 0 \<le> y then arctan (y / x) + pi else arctan (y / x) - pi)
     else if 0 < y then pi / 2
     else if y < 0 then - pi / 2
     else 0)"

definition calculateDistance :: "real \<Rightarrow> real \<Rightarrow> real \<Rightarrow> real \<Rightarrow> real" where
  "calculateDistance lat1 lon1 lat2 lon2 =
    (let R = 6371;
         dLat = (lat2 - lat1) * pi / 180;
         dLon = (lon2 - lon1) * pi / 180;
         a = sin (dLat / 2) * sin (dLat / 2) +
             cos (lat1 * pi / 180) * cos (lat2 * pi / 180) *
             sin (dLon / 2) * sin (dLon / 2);
         c = 2 * atan2 (sqrt a) (sqrt (1 - a))
     in R * c)"

text \<open>
  A number that can be NaN, and the two ways in which the code's \<^verbatim>\<open>calculateDistance\<close>
  returns NaN.
  \<^item> A coordinate is missing (\<^verbatim>\<open>undefined\<close>, here \<open>None\<close>): the first difference or
    product is NaN and every later operation keeps it.
  \<^item> All four coordinates are numbers, and in double precision the rounded \<open>a\<close> of lines
    628-631 leaves the interval from 0 to 1, as it does for some nearly antipodal pairs; then
    \<^verbatim>\<open>Math.sqrt(1 - a)\<close> or \<^verbatim>\<open>Math.sqrt(a)\<close> is NaN. On reals \<open>a\<close> never leaves that
    interval, so exact arithmetic cannot say where this happens: the coordinate quadruples at
    which the double-precision evaluation ends in NaN are a parameter \<open>float_nan\<close> of the
    model.
\<close>

datatype jsnum = NaN | Num real

fun js_add :: "jsnum \<Rightarrow> jsnum \<Rightarrow> jsnum" where
  "js_add (Num x) (Num y) = Num (x + y)"
| "js_add a b = NaN"

type_synonym float_nan = "real \<Rightarrow> real \<Rightarrow> real \<Rightarrow> real \<Rightarrow> bool"

fun calculateDistance_js ::
  "float_nan \<Rightarrow> real option \<Rightarrow> real option \<Rightarrow> real option \<Rightarrow> real option \<Rightarrow> jsnum" where
  "calculateDistance_js float_nan (Some lat1) (Some lon1) (Some lat2) (Some lon2) =
     (if float_nan lat1 lon1 lat2 lon2 then NaN
      else Num (calculateDistance lat1 lon1 lat2 lon2))"
| "calculateDistance_js float_nan lat1 lon1 lat2 lon2 = NaN"

subsection \<open>The durable store\<close>

text \<open>
  The fields of the stored documents that the modelled routes read or write. A collection
  is a map from the document id; \<^verbatim>\<open>findById\<close> is the lookup.
\<close>

text \<open>
  A tracked point (schema lines 411-416): neither coordinate is required, a missing one is
  \<open>None\<close>. (A coordinate stored as \<^verbatim>\<open>null\<close> enters the arithmetic as 0 and is the
  number 0 here.)
\<close>

record tracking_point =
  tp_lat :: "real option"
  tp_lon :: "real option"

record distance_doc =
  estimated_km :: "real option"
  actual_km :: "real option"

record order_doc =
  order_driverId :: string
  order_status :: string
  tracking :: "tracking_point list"
  distance :: distance_doc
  startedAt :: "nat option"
  completedAt :: "nat option"

record user_doc =
  driverProfile_totalTrips :: int
  driverProfile_totalKm :: real
  wallet_balance :: real

record wallet_transaction =
  tx_userId :: string
  tx_type :: string
  tx_amount :: real
  tx_status :: string
  tx_confirmedAt :: "nat option"
  tx_confirmedBy :: "string option"

record db =
  orders :: "string \<rightharpoonup> order_doc"
  users :: "string \<rightharpoonup> user_doc"
  transactions :: "string \<rightharpoonup> wallet_transaction"

text \<open>\<^verbatim>\<open>req.user\<close>, as \<^verbatim>\<open>authMiddleware\<close> resolved it: its id and its type.\<close>

record req_user =
  user_id :: string
  user_type :: string

datatype response = Ok200 | Forbidden403 | NotFound404 | ServerError500

text \<open>The values the order schema allows for \<^verbatim>\<open>status\<close> (lines 349-363).\<close>

definition order_status_enum :: "string list" where
  "order_status_enum =
    [''pending'', ''accepted'', ''driver_coming'', ''loading'', ''in_transit'',
     ''unloading'', ''completed'', ''cancelled'', ''disputed'']"

subsection \<open>Order creation: the price (lines 1100-1110)\<close>

record geo =
  geo_lat :: "real option"
  geo_lon :: real

record pricing =
  pricePerKm :: "real option"
  minimumPrice :: "real option"

record payment =
  amount :: real
  platformFee :: real
  driverShare :: real

text \<open>
  \<open>dropoff\<close> is \<open>None\<close> when the request has none (\<^verbatim>\<open>dropoff?.lat\<close> is then
  \<^verbatim>\<open>undefined\<close>). A longitude is taken to be a number wherever its latitude is, and the
  distance to be a number: with a NaN distance the amount is NaN and the creation fails when
  the order is saved.
\<close>

definition order_payment :: "pricing \<Rightarrow> string \<Rightarrow> geo \<Rightarrow> geo option \<Rightarrow> payment" where
  "order_payment vehicle_pricing serviceType pickup dropoff =
    (let amount0 = num_or (minimumPrice vehicle_pricing) 5000;
         amount1 =
           (case dropoff of
              None \<Rightarrow> amount0
            | Some dp \<Rightarrow>
                if serviceType = ''transport'' \<and> num_truthy (geo_lat pickup) \<and> num_truthy (geo_lat dp)
                then (let distance = calculateDistance (the (geo_lat pickup)) (geo_lon pickup)
                                       (the (geo_lat dp)) (geo_lon dp)
                      in max amount0 (distance * num_or (pricePerKm vehicle_pricing) 500))
                else amount0);
         fee = Math_round (amount1 * (15 / 100));
         share = amount1 - fee
     in \<lparr>amount = amount1, platformFee = fee, driverShare = share\<rparr>)"

subsection \<open>Order status update (lines 1349-1417)\<close>

text \<open>
  The loop of lines 1379-1387; it is entered with \<open>i = 1\<close> and \<open>totalKm = 0\<close>. The
  total is NaN as soon as one distance is.
\<close>

function track_loop :: "float_nan \<Rightarrow> tracking_point list \<Rightarrow> nat \<Rightarrow> jsnum \<Rightarrow> jsnum" where
  "track_loop float_nan trk i totalKm =
    (if i < length trk
     then track_loop float_nan trk (i + 1)
            (js_add totalKm
               (calculateDistance_js float_nan
                  (tp_lat (trk ! (i - 1))) (tp_lon (trk ! (i - 1)))
                  (tp_lat (trk ! i)) (tp_lon (trk ! i))))
     else totalKm)"
  by pat_completeness auto
termination
  by (relation "measure (\<lambda>(float_nan, trk, i, totalKm). length trk - i)") auto

declare track_loop.simps [simp del]

text \<open>
  The \<^verbatim>\<open>completed\<close> branch on the order document, lines 1375-1389. The schema types
  \<^verbatim>\<open>actual_km\<close> as a Number, and a Number path refuses NaN: the assignment of line 1388
  then leaves \<^verbatim>\<open>actual_km\<close> as it was and marks the document invalid, which makes
  \<^verbatim>\<open>order.save()\<close> throw later. The second component says whether the document was marked
  invalid.
\<close>

definition complete_order :: "float_nan \<Rightarrow> nat \<Rightarrow> order_doc \<Rightarrow> order_doc \<times> bool" where
  "complete_order float_nan now order =
    (let o1 = order\<lparr>completedAt := Some now\<rparr>
     in if length (tracking o1) > 1
        then (case track_loop float_nan (tracking o1) 1 (Num 0) of
                NaN \<Rightarrow> (o1, True)
              | Num totalKm \<Rightarrow>
                  (o1\<lparr>distance := (distance o1)\<lparr>actual_km := Some (Math_round (totalKm * 10) / 10)\<rparr>\<rparr>,
                   False))
        else (o1, False))"

text \<open>
  \<^verbatim>\<open>User.findByIdAndUpdate(id, { $inc: ... })\<close> of lines 1392-1397: no document with
  that id, no write.
\<close>

definition inc_driver_stats ::
  "(string \<rightharpoonup> user_doc) \<Rightarrow> string \<Rightarrow> int \<Rightarrow> real \<Rightarrow> (string \<rightharpoonup> user_doc)" where
  "inc_driver_stats us uid trips km =
    (case us uid of
       None \<Rightarrow> us
     | Some u \<Rightarrow>
         us(uid \<mapsto> u\<lparr>driverProfile_totalTrips := driverProfile_totalTrips u + trips,
                      driverProfile_totalKm := driverProfile_totalKm u + km\<rparr>))"

text \<open>
  The route. The driver's stats are incremented (lines 1392-1397) before
  \<^verbatim>\<open>order.save()\<close> (line 1400). The save runs the schema's validation and throws when the
  status is outside the enum or the document was marked invalid by a refused
  \<^verbatim>\<open>actual_km\<close>: the order is then not stored, nothing is emitted and the \<^verbatim>\<open>catch\<close>
  answers 500, with the increment of the stats already written. The request's \<open>status\<close> is
  taken to be a string, and the order id to be one that casts to an ObjectId (for one that
  does not, \<^verbatim>\<open>findById\<close> throws and the answer is 500, with nothing written).
\<close>

definition update_status ::
  "float_nan \<Rightarrow> req_user \<Rightarrow> string \<Rightarrow> string \<Rightarrow> nat \<Rightarrow> db \<Rightarrow> response \<times> db \<times> emit list" where
  "update_status float_nan user order_id new_status now d =
    (case orders d order_id of
       None \<Rightarrow> (NotFound404, d, [])
     | Some order \<Rightarrow>
         (let isDriver = (order_driverId order = user_id user);
              isAdmin = (user_type user = ''admin'')
          in if \<not> isDriver \<and> \<not> isAdmin then (Forbidden403, d, [])
             else
               (let o1 = order\<lparr>order_status := new_status\<rparr>;
                    o2 = (if new_status = ''in_transit'' then o1\<lparr>startedAt := Some now\<rparr> else o1);
                    (o3, invalid) =
                      (if new_status = ''completed'' then complete_order float_nan now o2
                       else (o2, False));
                    users' =
                      (if new_status = ''completed''
                       then inc_driver_stats (users d) (order_driverId o3) 1
                              (num_or (actual_km (distance o3))
                                 (num_or (estimated_km (distance o3)) 0))
                       else users d)
                in if new_status \<in> set order_status_enum \<and> \<not> invalid
                   then (Ok200, d\<lparr>orders := (orders d)(order_id \<mapsto> o3), users := users'\<rparr>,
                         [EmitAll (OrderStatus order_id new_status)])
                   else (ServerError500, d\<lparr>users := users'\<rparr>, []))))"

subsection \<open>Wallet recharge confirmation (lines 1661-1694)\<close>

text \<open>
  \<^verbatim>\<open>User.findByIdAndUpdate(transaction.userId, { $inc: { 'driverProfile.wallet.balance':
  transaction.amount } })\<close>.
\<close>

definition inc_wallet_balance ::
  "(string \<rightharpoonup> user_doc) \<Rightarrow> string \<Rightarrow> real \<Rightarrow> (string \<rightharpoonup> user_doc)" where
  "inc_wallet_balance us uid x =
    (case us uid of
       None \<Rightarrow> us
     | Some u \<Rightarrow> us(uid \<mapsto> u\<lparr>wallet_balance := wallet_balance u + x\<rparr>))"

text \<open>The route behind \<^verbatim>\<open>authMiddleware\<close> and \<^verbatim>\<open>adminMiddleware\<close> (lines 597-605).\<close>

definition confirm_recharge :: "req_user \<Rightarrow> string \<Rightarrow> nat \<Rightarrow> db \<Rightarrow> response \<times> db" where
  "confirm_recharge user transactionId now d =
    (if user_type user \<noteq> ''admin'' then (Forbidden403, d)
     else
       (case transactions d transactionId of
          None \<Rightarrow> (NotFound404, d)
        | Some transaction \<Rightarrow>
            (let t' = transaction\<lparr>tx_status := ''confirmed'',
                                  tx_confirmedAt := Some now,
                                  tx_confirmedBy := Some (user_id user)\<rparr>;
                 d1 = d\<lparr>transactions := (transactions d)(transactionId \<mapsto> t')\<rparr>;
                 d2 = d1\<lparr>users := inc_wallet_balance (users d1) (tx_userId transaction)
                                    (tx_amount transaction)\<rparr>
             in (Ok200, d2))))"

subsection \<open>Example inputs\<close>

text \<open>
  Two location reports (the first leaves speed, heading and the online flag out and
  reports an empty battery), a third one for the first driver, and the state after the
  two reports and one acceptance.
\<close>

definition example_report1 :: location_data where
  "example_report1 =
    \<lparr>data_driverId = ''d1'', data_lat = JNum 6.37, data_lon = JNum 2.39,
     data_speed = Undefined, data_heading = Undefined, data_battery = JNum 0,
     data_isOnline = Undefined\<rparr>"

definition example_report2 :: location_data where
  "example_report2 =
    \<lparr>data_driverId = ''d2'', data_lat = JNum 6.4, data_lon = JNum 2.42,
     data_speed = JNum 40, data_heading = JNum 90, data_battery = JNum 80,
     data_isOnline = JBool True\<rparr>"

definition example_report3 :: location_data where
  "example_report3 =
    \<lparr>data_driverId = ''d1'', data_lat = JNum 6.45, data_lon = JNum 2.5,
     data_speed = JNum 30, data_heading = Null, data_battery = JNum 55,
     data_isOnline = JBool False\<rparr>"

definition example_server :: server where
  "example_server =
    run [Location ''s1'' 1 (1 / 2) example_report1, Location ''s2'' 2 (1 / 2) example_report2,
         Accept ''s2'' ''o1'' ''d2'']
      initial_server"

text \<open>
  A store with four orders of driver \<open>d1\<close> (the second one tracked twice at the same
  point, the third one not tracked, the fourth one with a tracked point that has no
  latitude), that driver's user document and one pending recharge of 5000; the driver and an
  administrator as callers. \<open>no_float_nan\<close> is the parameter for inputs at which the
  double-precision haversine is a number.
\<close>

definition no_float_nan :: float_nan where
  "no_float_nan = (\<lambda>lat1 lon1 lat2 lon2. False)"

definition example_order1 :: order_doc where
  "example_order1 =
    \<lparr>order_driverId = ''d1'', order_status = ''pending'',
     tracking = [\<lparr>tp_lat = Some 6.37, tp_lon = Some 2.39\<rparr>,
                 \<lparr>tp_lat = Some 6.4, tp_lon = Some 2.42\<rparr>,
                 \<lparr>tp_lat = Some 6.45, tp_lon = Some 2.5\<rparr>],
     distance = \<lparr>estimated_km = Some 12, actual_km = None\<rparr>,
     startedAt = None, completedAt = None\<rparr>"

definition example_order2 :: order_doc where
  "example_order2 =
    \<lparr>order_driverId = ''d1'', order_status = ''in_transit'',
     tracking = [\<lparr>tp_lat = Some 6.37, tp_lon = Some 2.39\<rparr>,
                 \<lparr>tp_lat = Some 6.37, tp_lon = Some 2.39\<rparr>],
     distance = \<lparr>estimated_km = Some 12, actual_km = None\<rparr>,
     startedAt = Some 3, completedAt = None\<rparr>"

definition example_order3 :: order_doc where
  "example_order3 =
    \<lparr>order_driverId = ''d1'', order_status = ''pending'',
     tracking = [],
     distance = \<lparr>estimated_km = Some 12, actual_km = None\<rparr>,
     startedAt = None, completedAt = None\<rparr>"

definition example_order4 :: order_doc where
  "example_order4 =
    \<lparr>order_driverId = ''d1'', order_status = ''unloading'',
     tracking = [\<lparr>tp_lat = Some 6.37, tp_lon = Some 2.39\<rparr>,
                 \<lparr>tp_lat = None, tp_lon = Some 2.42\<rparr>],
     distance = \<lparr>estimated_km = Some 12, actual_km = None\<rparr>,
     startedAt = Some 3, completedAt = None\<rparr>"

definition example_db :: db where
  "example_db =
    \<lparr>orders = [''o1'' \<mapsto> example_order1, ''o2'' \<mapsto> example_order2,
               ''o3'' \<mapsto> example_order3, ''o4'' \<mapsto> example_order4],
     users = [''d1'' \<mapsto> \<lparr>driverProfile_totalTrips = 0, driverProfile_totalKm = 0,
                            wallet_balance = 0\<rparr>],
     transactions = [''t1'' \<mapsto> \<lparr>tx_userId = ''d1'', tx_type = ''recharge'', tx_amount = 5000,
                                  tx_status = ''pending'', tx_confirmedAt = None,
                                  tx_confirmedBy = None\<rparr>]\<rparr>"

definition example_driver :: req_user where
  "example_driver = \<lparr>user_id = ''d1'', user_type = ''driver''\<rparr>"

definition example_admin :: req_user where
  "example_admin = \<lparr>user_id = ''a1'', user_type = ''admin''\<rparr>"

subsection \<open>The distance of a trip, in the specification's words\<close>

text \<open>
  The sum of the great-circle distances between consecutive tracked points, the sequence
  taken in stored order; NaN when one of these distances is. (The code computes it with the
  index loop \<open>track_loop\<close>.)
\<close>

fun consecutive_distance_sum :: "float_nan \<Rightarrow> tracking_point list \<Rightarrow> jsnum" where
  "consecutive_distance_sum float_nan (p # q # ps) =
     js_add (calculateDistance_js float_nan (tp_lat p) (tp_lon p) (tp_lat q) (tp_lon q))
       (consecutive_distance_sum float_nan (q # ps))"
| "consecutive_distance_sum float_nan ps = Num 0"

section \<open>Properties\<close>

subsection \<open>The Map operations\<close>

lemma map_of_map_set: "map_of (map_set m k v) = (map_of m)(k \<mapsto> v)"
  by (induction m) auto

lemma map_get_map_set: "map_get (map_set m k v) k' = (if k' = k then Some v else map_get m k')"
  by (simp add: map_get_def map_of_map_set)

lemma map_keys_map_set:
  "map_keys (map_set m k v) = (if k \<in> set (map_keys m) then map_keys m else map_keys m @ [k])"
  by (induction m) (force simp: map_keys_def)+

lemma distinct_map_set: "distinct (map_keys m) \<Longrightarrow> distinct (map_keys (map_set m k v))"
  by (simp add: map_keys_map_set)

lemma map_set_twice: "map_set (map_set m k v) k w = map_set m k w"
  by (induction m) auto

lemma map_get_None_iff: "map_get m k = None \<longleftrightarrow> k \<notin> set (map_keys m)"
  by (simp add: map_get_def map_keys_def map_of_eq_None_iff)

subsection \<open>The disconnect loop\<close>

text \<open>The loop adds no key and drops none, and keeps the order of the entries.\<close>

lemma disconnect_loop_keys:
  "set (map_keys es) \<subseteq> set (map_keys m) \<Longrightarrow>
   map_keys (fst (disconnect_loop H es m out)) = map_keys m"
proof (induction es arbitrary: m out)
  case Nil
  then show ?case by simp
next
  case (Cons e es)
  obtain k p where e: "e = (k, p)" by (cases e)
  from Cons.prems e have k: "k \<in> set (map_keys m)" and rest: "set (map_keys es) \<subseteq> set (map_keys m)"
    by (auto simp: map_keys_def)
  show ?case
  proof (cases "socketId p = H")
    case True
    have same: "map_keys (map_set m k (p\<lparr>isOnline := False\<rparr>)) = map_keys m"
      using k by (simp add: map_keys_map_set)
    with rest Cons.IH [of "map_set m k (p\<lparr>isOnline := False\<rparr>)"] True e
    show ?thesis by (simp add: Let_def)
  next
    case False
    with rest Cons.IH [of m out] e show ?thesis by simp
  qed
qed

text \<open>What the loop leaves under a key, when the entries it visits have distinct keys.\<close>

lemma disconnect_loop_get:
  "distinct (map_keys es) \<Longrightarrow>
   map_get (fst (disconnect_loop H es m out)) d =
     (case map_get es d of
        None \<Rightarrow> map_get m d
      | Some p \<Rightarrow> if socketId p = H then Some (p\<lparr>isOnline := False\<rparr>) else map_get m d)"
proof (induction es arbitrary: m out)
  case Nil
  then show ?case by (simp add: map_get_def)
next
  case (Cons e es)
  obtain k p where e: "e = (k, p)" by (cases e)
  from Cons.prems e have notin: "k \<notin> set (map_keys es)" and dist: "distinct (map_keys es)"
    by (auto simp: map_keys_def)
  from notin have none: "map_get es k = None" by (simp add: map_get_None_iff)
  show ?case
  proof (cases "socketId p = H")
    case True
    show ?thesis
      using Cons.IH [OF dist, of "map_set m k (p\<lparr>isOnline := False\<rparr>)"] True e none
      by (auto simp: Let_def map_of_map_set map_get_def split: option.splits)
  next
    case False
    show ?thesis
      using Cons.IH [OF dist, of m out] False e none
      by (auto simp: map_get_def split: option.splits)
  qed
qed

subsection \<open>The handlers on the two maps\<close>

lemma fst_disconnect:
  "fst (disconnect H st) =
     st\<lparr>driverPositions := fst (disconnect_loop H (driverPositions st) (driverPositions st) [])\<rparr>"
  by (simp add: disconnect_def case_prod_beta)

lemma disconnect_keys: "map_keys (driverPositions (fst (disconnect H st))) = map_keys (driverPositions st)"
  by (simp add: fst_disconnect disconnect_loop_keys)

lemma disconnect_get:
  "distinct (map_keys (driverPositions st)) \<Longrightarrow>
   map_get (driverPositions (fst (disconnect H st))) d =
     map_option (\<lambda>p. if socketId p = H then p\<lparr>isOnline := False\<rparr> else p)
       (map_get (driverPositions st) d)"
  by (auto simp: fst_disconnect disconnect_loop_get split: option.splits)

lemma disconnect_activeOrders: "activeOrders (fst (disconnect H st)) = activeOrders st"
  by (simp add: fst_disconnect)

lemma step_keeps_keys: "set (map_keys (driverPositions st)) \<subseteq> set (map_keys (driverPositions (step e st)))"
  by (cases e) (auto simp: driver_location_def Let_def map_keys_map_set order_track_def
      driver_accept_order_def disconnect_keys split: option.splits)

lemma run_keeps_keys: "set (map_keys (driverPositions st)) \<subseteq> set (map_keys (driverPositions (run es st)))"
proof (induction es arbitrary: st)
  case Nil
  show ?case by simp
next
  case (Cons e es)
  from step_keeps_keys [of st e] Cons.IH [of "step e st"] show ?case by auto
qed

lemma step_distinct:
  "distinct (map_keys (driverPositions st)) \<Longrightarrow> distinct (map_keys (driverPositions (step e st)))"
  by (cases e) (auto simp: driver_location_def Let_def distinct_map_set order_track_def
      driver_accept_order_def disconnect_keys split: option.splits)

lemma run_distinct:
  "distinct (map_keys (driverPositions st)) \<Longrightarrow> distinct (map_keys (driverPositions (run es st)))"
  by (induction es arbitrary: st) (auto simp: step_distinct)

lemmas example_defs = example_report1_def example_report2_def example_server_def
  initial_server_def driver_location_def driver_accept_order_def order_track_def
  map_get_def map_keys_def map_values_def js_or_def fst_disconnect Let_def

subsection \<open>The session table: track and accept\<close>

text \<open>
  C1 (as amended). A track request on a known order sets the client handle and nothing else
  of the session: the driver id, the driver handle and the status stay. A driver-accept
  event stores a fresh session under the order id, with the accepting socket as driver
  handle and the client handle empty, whatever the entry held before. Neither touches the
  session of another order.
\<close>

theorem track_keeps_driver_accept_resets_client:
  "(\<forall>s. map_get (activeOrders st) oid = Some s \<longrightarrow>
        map_get (activeOrders (order_track sid oid st)) oid = Some (s\<lparr>clientSocketId := Some sid\<rparr>))
   \<and> map_get (activeOrders (driver_accept_order sid oid did st)) oid =
       Some \<lparr>orderId = oid, driverId = did, driverSocketId = sid, clientSocketId = None,
             status = ''accepted''\<rparr>
   \<and> (\<forall>oid'. oid' \<noteq> oid \<longrightarrow>
         map_get (activeOrders (order_track sid oid st)) oid' = map_get (activeOrders st) oid'
       \<and> map_get (activeOrders (driver_accept_order sid oid did st)) oid' =
           map_get (activeOrders st) oid')"
  by (auto simp: order_track_def driver_accept_order_def map_get_map_set split: option.splits)

text \<open>The same at the example state, where order \<open>o1\<close> was accepted on socket \<open>s2\<close>.\<close>

theorem track_keeps_driver_accept_resets_client_witness:
  "map_get (activeOrders example_server) ''o1'' =
     Some \<lparr>orderId = ''o1'', driverId = ''d2'', driverSocketId = ''s2'', clientSocketId = None,
           status = ''accepted''\<rparr>
   \<and> map_get (activeOrders (order_track ''s7'' ''o1'' example_server)) ''o1'' =
     Some \<lparr>orderId = ''o1'', driverId = ''d2'', driverSocketId = ''s2'',
           clientSocketId = Some ''s7'', status = ''accepted''\<rparr>
   \<and> map_get (activeOrders (driver_accept_order ''s8'' ''o2'' ''d1'' example_server)) ''o1'' =
     map_get (activeOrders example_server) ''o1''"
proof -
  have g: "map_get (activeOrders example_server) ''o1'' =
     Some \<lparr>orderId = ''o1'', driverId = ''d2'', driverSocketId = ''s2'', clientSocketId = None,
           status = ''accepted''\<rparr>"
    by (simp add: example_defs)
  from track_keeps_driver_accept_resets_client
      [where st = example_server and oid = "''o1''" and sid = "''s7''" and did = "''d1''"]
    track_keeps_driver_accept_resets_client
      [where st = example_server and oid = "''o2''" and sid = "''s8''" and did = "''d1''"] g
  show ?thesis by auto
qed

text \<open>
  C1 as stated fails: after accept, track, accept on one order, the client handle attached
  by the track request is gone.
\<close>

theorem accept_after_track_drops_client_handle:
  "map_option clientSocketId
     (map_get (activeOrders (run [Accept ''sD'' ''o1'' ''d1'', Track ''sC'' ''o1''] initial_server))
        ''o1'') = Some (Some ''sC'')
   \<and> map_option clientSocketId
     (map_get (activeOrders (run [Accept ''sD'' ''o1'' ''d1'', Track ''sC'' ''o1'',
                                  Accept ''sD'' ''o1'' ''d1''] initial_server))
        ''o1'') = Some None"
  by (simp add: example_defs)

text \<open>
  C8 (as amended). A track request that names an order id with no session is a no-op: the
  state is left as it was, and no entry is created.
\<close>

theorem track_unknown_order_changes_nothing:
  "map_get (activeOrders st) oid = None \<Longrightarrow> order_track sid oid st = st"
  by (simp add: order_track_def)

text \<open>The same at the example state, for an order id that has no session there.\<close>

theorem track_unknown_order_changes_nothing_witness:
  "map_get (activeOrders example_server) ''o9'' = None
   \<and> order_track ''sC'' ''o9'' example_server = example_server"
proof -
  have n: "map_get (activeOrders example_server) ''o9'' = None"
    by (simp add: example_defs)
  from track_unknown_order_changes_nothing [OF n] n show ?thesis by simp
qed

text \<open>
  C8 as stated fails: a track request on an empty session table creates no entry, and the
  acceptance that follows stores an empty client handle.
\<close>

theorem track_unknown_order_creates_no_entry:
  "map_get (activeOrders (run [Track ''sC'' ''o1''] initial_server)) ''o1'' = None
   \<and> map_option clientSocketId
       (map_get (activeOrders (run [Track ''sC'' ''o1'', Accept ''sD'' ''o1'' ''d1''] initial_server))
          ''o1'') = Some None"
  by (simp add: example_defs)

subsection \<open>The position registry: report and disconnect\<close>

text \<open>
  C6 (as amended). A location report stores a whole new entry under the driver id, built
  from the report, the socket and the clock alone; the entries of the other drivers stay.
  The handler does not read the entry it replaces: the new state and the events sent are the
  same whatever that entry was.
\<close>

theorem location_report_replaces_entry:
  "map_get (driverPositions (fst (driver_location sid now rnd data st))) (data_driverId data) =
     Some \<lparr>lat = data_lat data, lon = data_lon data,
           speed = js_or (data_speed data) (JNum 0),
           heading = js_or (data_heading data) (JNum 0),
           battery = js_or (data_battery data) (JNum 100),
           isOnline = (data_isOnline data \<noteq> JBool False),
           lastUpdate = now, socketId = sid\<rparr>
   \<and> (\<forall>d. d \<noteq> data_driverId data \<longrightarrow>
         map_get (driverPositions (fst (driver_location sid now rnd data st))) d =
         map_get (driverPositions st) d)
   \<and> (\<forall>old old'.
         driver_location sid now rnd data
           (st\<lparr>driverPositions := map_set (driverPositions st) (data_driverId data) old\<rparr>) =
         driver_location sid now rnd data
           (st\<lparr>driverPositions := map_set (driverPositions st) (data_driverId data) old'\<rparr>))"
  by (simp add: driver_location_def Let_def map_get_map_set map_set_twice)

text \<open>The same at the example state, for a new report of driver \<open>d1\<close> on socket \<open>s5\<close>.\<close>

theorem location_report_replaces_entry_witness:
  "map_get (driverPositions (fst (driver_location ''s5'' 9 (1 / 2) example_report3 example_server)))
      ''d1'' =
     Some \<lparr>lat = JNum 6.45, lon = JNum 2.5, speed = JNum 30, heading = JNum 0,
           battery = JNum 55, isOnline = False, lastUpdate = 9, socketId = ''s5''\<rparr>
   \<and> map_get (driverPositions (fst (driver_location ''s5'' 9 (1 / 2) example_report3 example_server)))
      ''d2'' = map_get (driverPositions example_server) ''d2''"
  using location_report_replaces_entry
      [where sid = "''s5''" and now = 9 and rnd = "1 / 2" and data = example_report3
         and st = example_server]
  by (simp add: example_report3_def js_or_def)

text \<open>
  C6 as stated fails: the handler gives the same result for a driver whose entry was online
  and for one whose entry was offline, so nothing it produces is the previous online flag.
\<close>

theorem location_report_ignores_previous_online_flag:
  "driver_location ''s1'' 3 (1 / 2) example_report1
     (run [Location ''s1'' 1 (1 / 2) example_report1] initial_server) =
   driver_location ''s1'' 3 (1 / 2) example_report1
     (run [Location ''s1'' 1 (1 / 2) example_report1, Disconnect ''s1''] initial_server)
   \<and> map_option isOnline
       (map_get (driverPositions (run [Location ''s1'' 1 (1 / 2) example_report1] initial_server))
          ''d1'') = Some True
   \<and> map_option isOnline
       (map_get (driverPositions
          (run [Location ''s1'' 1 (1 / 2) example_report1, Disconnect ''s1''] initial_server))
          ''d1'') = Some False"
  by (simp add: example_defs Let_def)

text \<open>
  C7. On a registry with one entry per driver id, the disconnect of handle \<open>H\<close> keeps the
  keys and their order, sets the online flag to false in every entry bound to \<open>H\<close> and
  changes nothing else in it, leaves every other entry and the session table as they were,
  and leaves an absent driver absent. No run of events removes a driver id from the
  registry.
\<close>

theorem disconnect_marks_bound_entries_offline:
  assumes "distinct (map_keys (driverPositions st))"
  shows "map_keys (driverPositions (fst (disconnect H st))) = map_keys (driverPositions st)
       \<and> (\<forall>d p. map_get (driverPositions st) d = Some p \<longrightarrow>
             map_get (driverPositions (fst (disconnect H st))) d =
               Some (if socketId p = H then p\<lparr>isOnline := False\<rparr> else p))
       \<and> (\<forall>d. map_get (driverPositions st) d = None \<longrightarrow>
             map_get (driverPositions (fst (disconnect H st))) d = None)
       \<and> activeOrders (fst (disconnect H st)) = activeOrders st
       \<and> (\<forall>es d. map_get (driverPositions st) d \<noteq> None \<longrightarrow>
             map_get (driverPositions (run es st)) d \<noteq> None)"
proof -
  have "\<And>es d. map_get (driverPositions st) d \<noteq> None \<Longrightarrow>
          map_get (driverPositions (run es st)) d \<noteq> None"
    using run_keeps_keys [of st] by (auto simp: map_get_None_iff)
  then show ?thesis
    using assms by (simp add: disconnect_keys disconnect_get disconnect_activeOrders)
qed

text \<open>
  The same at the example state: driver \<open>d1\<close> on socket \<open>s1\<close> goes offline, driver
  \<open>d2\<close> is untouched, driver \<open>d3\<close> never reported.
\<close>

theorem disconnect_marks_bound_entries_offline_witness:
  "distinct (map_keys (driverPositions example_server))
   \<and> map_keys (driverPositions (fst (disconnect ''s1'' example_server))) = [''d1'', ''d2'']
   \<and> map_get (driverPositions (fst (disconnect ''s1'' example_server))) ''d1'' =
       Some \<lparr>lat = JNum 6.37, lon = JNum 2.39, speed = JNum 0, heading = JNum 0,
             battery = JNum 100, isOnline = False, lastUpdate = 1, socketId = ''s1''\<rparr>
   \<and> map_get (driverPositions (fst (disconnect ''s1'' example_server))) ''d2'' =
       map_get (driverPositions example_server) ''d2''
   \<and> map_get (driverPositions (fst (disconnect ''s1'' example_server))) ''d3'' = None
   \<and> map_get (driverPositions (run [Disconnect ''s1'', Disconnect ''s2''] example_server)) ''d1''
       \<noteq> None"
proof -
  have d: "distinct (map_keys (driverPositions example_server))"
    by (simp add: example_defs)
  have g1: "map_get (driverPositions example_server) ''d1'' =
      Some \<lparr>lat = JNum 6.37, lon = JNum 2.39, speed = JNum 0, heading = JNum 0,
             battery = JNum 100, isOnline = True, lastUpdate = 1, socketId = ''s1''\<rparr>"
    by (simp add: example_defs)
  have g2: "map_get (driverPositions example_server) ''d2'' =
      Some \<lparr>lat = JNum 6.4, lon = JNum 2.42, speed = JNum 40, heading = JNum 90,
             battery = JNum 80, isOnline = True, lastUpdate = 2, socketId = ''s2''\<rparr>"
    by (simp add: example_defs)
  have g3: "map_get (driverPositions example_server) ''d3'' = None"
    by (simp add: example_defs)
  have k: "map_keys (driverPositions example_server) = [''d1'', ''d2'']"
    by (simp add: example_defs)
  note T = disconnect_marks_bound_entries_offline [OF d, of "''s1''"]
  from T g1 have r1: "map_get (driverPositions (fst (disconnect ''s1'' example_server))) ''d1'' =
       Some \<lparr>lat = JNum 6.37, lon = JNum 2.39, speed = JNum 0, heading = JNum 0,
             battery = JNum 100, isOnline = False, lastUpdate = 1, socketId = ''s1''\<rparr>"
    by simp
  from T g2 have r2: "map_get (driverPositions (fst (disconnect ''s1'' example_server))) ''d2'' =
       map_get (driverPositions example_server) ''d2''"
    by simp
  from T g3 have r3: "map_get (driverPositions (fst (disconnect ''s1'' example_server))) ''d3'' = None"
    by simp
  from T have "map_get (driverPositions example_server) ''d1'' \<noteq> None \<longrightarrow>
      map_get (driverPositions (run [Disconnect ''s1'', Disconnect ''s2''] example_server)) ''d1''
        \<noteq> None"
    by blast
  with g1 have r4:
    "map_get (driverPositions (run [Disconnect ''s1'', Disconnect ''s2''] example_server)) ''d1''
        \<noteq> None"
    by simp
  from T k have r0: "map_keys (driverPositions (fst (disconnect ''s1'' example_server))) = [''d1'', ''d2'']"
    by simp
  from d r0 r1 r2 r3 r4 show ?thesis by blast
qed

text \<open>
  C10. The entry stored by a location report takes speed and heading from the report when
  they are truthy and 0 otherwise, the battery level when it is truthy and 100 otherwise: an
  absent speed or heading gives 0, an absent battery level or one of exactly 0 gives 100. The
  online flag is true for every value but the literal \<^verbatim>\<open>false\<close>.
\<close>

theorem location_report_falsy_defaults:
  "\<exists>pos. map_get (driverPositions (fst (driver_location sid now rnd data st)))
            (data_driverId data) = Some pos
     \<and> speed pos = (if truthy (data_speed data) then data_speed data else JNum 0)
     \<and> heading pos = (if truthy (data_heading data) then data_heading data else JNum 0)
     \<and> battery pos = (if truthy (data_battery data) then data_battery data else JNum 100)
     \<and> (data_speed data = Undefined \<longrightarrow> speed pos = JNum 0)
     \<and> (data_heading data = Undefined \<longrightarrow> heading pos = JNum 0)
     \<and> (data_battery data = Undefined \<or> data_battery data = JNum 0 \<longrightarrow> battery pos = JNum 100)
     \<and> isOnline pos = (data_isOnline data \<noteq> JBool False)"
  by (auto simp: driver_location_def Let_def map_get_map_set js_or_def)

text \<open>
  The same for the first example report: no speed, no heading, battery 0, no online flag.
\<close>

theorem location_report_falsy_defaults_witness:
  "\<exists>pos. map_get (driverPositions (fst (driver_location ''s1'' 1 (1 / 2) example_report1
                                         initial_server))) ''d1'' = Some pos
     \<and> speed pos = JNum 0 \<and> heading pos = JNum 0 \<and> battery pos = JNum 100 \<and> isOnline pos"
  using location_report_falsy_defaults
      [where sid = "''s1''" and now = 1 and rnd = "1 / 2" and data = example_report1
         and st = initial_server]
  by (auto simp: example_report1_def)

subsection \<open>Values at concrete inputs\<close>

lemma calculateDistance_same: "calculateDistance a b a b = 0"
  by (simp add: calculateDistance_def atan2_def)

lemma Math_round_0: "Math_round 0 = 0"
  by (simp add: Math_round_def)

subsection \<open>The haversine quantity on reals\<close>

text \<open>
  On reals the quantity \<open>a\<close> of lines 628-631 is half of one minus the inner product of
  the two unit vectors, and lies between 0 and 1 for all coordinates: the square roots of
  line 632 are taken of numbers that are not negative.
\<close>

lemma sin_half_square:
  fixes x :: real
  shows "sin (x / 2) * sin (x / 2) = (1 - cos x) / 2"
  using cos_double_sin [of "x / 2"] by (simp add: power2_eq_square)

lemma haversine_a_identity:
  fixes p1 p2 l :: real
  shows "sin ((p2 - p1) / 2) * sin ((p2 - p1) / 2) + cos p1 * cos p2 * sin (l / 2) * sin (l / 2) =
   (1 - (sin p1 * sin p2 + cos p1 * cos p2 * cos l)) / 2"
proof -
  have s1: "sin ((p2 - p1) / 2) * sin ((p2 - p1) / 2) = (1 - cos (p2 - p1)) / 2"
    by (rule sin_half_square)
  have s2: "sin (l / 2) * sin (l / 2) = (1 - cos l) / 2"
    by (rule sin_half_square)
  have "sin ((p2 - p1) / 2) * sin ((p2 - p1) / 2) + cos p1 * cos p2 * (sin (l / 2) * sin (l / 2)) =
        (1 - cos (p2 - p1)) / 2 + cos p1 * cos p2 * ((1 - cos l) / 2)"
    by (simp only: s1 s2)
  also have "\<dots> = (1 - (sin p1 * sin p2 + cos p1 * cos p2 * cos l)) / 2"
    by (simp add: cos_diff field_simps)
  finally show ?thesis by (simp add: mult.assoc)
qed

lemma dot_le_1:
  fixes p1 p2 l :: real
  shows "\<bar>sin p1 * sin p2 + cos p1 * cos p2 * cos l\<bar> \<le> 1"
proof -
  have c: "\<bar>cos l\<bar> \<le> 1" by (rule abs_cos_le_one)
  have a1: "\<bar>sin p1 * sin p2\<bar> \<le> ((sin p1)\<^sup>2 + (sin p2)\<^sup>2) / 2"
    using sum_squares_bound [of "\<bar>sin p1\<bar>" "\<bar>sin p2\<bar>"] by (simp add: abs_mult)
  have a2: "\<bar>cos p1 * cos p2\<bar> \<le> ((cos p1)\<^sup>2 + (cos p2)\<^sup>2) / 2"
    using sum_squares_bound [of "\<bar>cos p1\<bar>" "\<bar>cos p2\<bar>"] by (simp add: abs_mult)
  have "\<bar>cos p1 * cos p2 * cos l\<bar> = \<bar>cos p1 * cos p2\<bar> * \<bar>cos l\<bar>" by (simp add: abs_mult)
  also have "\<dots> \<le> \<bar>cos p1 * cos p2\<bar> * 1"
    by (rule mult_left_mono) (use c in simp_all)
  finally have a3: "\<bar>cos p1 * cos p2 * cos l\<bar> \<le> ((cos p1)\<^sup>2 + (cos p2)\<^sup>2) / 2"
    using a2 by simp
  have "\<bar>sin p1 * sin p2 + cos p1 * cos p2 * cos l\<bar> \<le>
        \<bar>sin p1 * sin p2\<bar> + \<bar>cos p1 * cos p2 * cos l\<bar>" by (rule abs_triangle_ineq)
  also have "\<dots> \<le> 1"
  proof -
    have lin: "A \<le> (x + y) / 2 \<Longrightarrow> B \<le> (z + w) / 2 \<Longrightarrow> x + z = 1 \<Longrightarrow> y + w = 1 \<Longrightarrow> A + B \<le> 1"
      for A B x y z w :: real
      by argo
    show ?thesis
      by (rule lin [OF a1 a3 sin_cos_squared_add [of p1] sin_cos_squared_add [of p2]])
  qed
  finally show ?thesis .
qed

lemma haversine_a_range:
  fixes lat1 lon1 lat2 lon2 :: real
  defines "a \<equiv> sin ((lat2 - lat1) * pi / 180 / 2) * sin ((lat2 - lat1) * pi / 180 / 2) +
                cos (lat1 * pi / 180) * cos (lat2 * pi / 180) *
                sin ((lon2 - lon1) * pi / 180 / 2) * sin ((lon2 - lon1) * pi / 180 / 2)"
  shows "0 \<le> a \<and> a \<le> 1"
proof -
  have d: "(lat2 - lat1) * pi / 180 = lat2 * pi / 180 - lat1 * pi / 180"
    by (simp add: left_diff_distrib diff_divide_distrib)
  have "a = (1 - (sin (lat1 * pi / 180) * sin (lat2 * pi / 180) +
                  cos (lat1 * pi / 180) * cos (lat2 * pi / 180) * cos ((lon2 - lon1) * pi / 180))) / 2"
    unfolding a_def d
    by (rule haversine_a_identity)
  with dot_le_1 [of "lat1 * pi / 180" "lat2 * pi / 180" "(lon2 - lon1) * pi / 180"]
  show ?thesis by (simp add: abs_le_iff)
qed

subsection \<open>The tracking loop\<close>

text \<open>
  The loop of the route against the specification's sum: entered at \<open>i = 1\<close> with total
  0, the loop returns that sum, NaN included.
\<close>

lemma js_add_assoc: "js_add (js_add a b) c = js_add a (js_add b c)"
  by (cases a; cases b; cases c) simp_all

lemma js_add_zero: "js_add a (Num 0) = a"
  by (cases a) simp_all

lemma track_loop_from:
  "1 \<le> i \<Longrightarrow> i \<le> length trk \<Longrightarrow>
   track_loop float_nan trk i acc =
     js_add acc (consecutive_distance_sum float_nan (drop (i - 1) trk))"
proof (induction float_nan trk i acc rule: track_loop.induct)
  case (1 float_nan trk i totalKm)
  show ?case
  proof (cases "i < length trk")
    case True
    from True "1.prems" have d1: "drop (i - 1) trk = trk ! (i - 1) # drop i trk"
      by (metis Cons_nth_drop_Suc Suc_diff_1 less_imp_diff_less less_le_trans zero_less_one)
    from True have d2: "drop i trk = trk ! i # drop (i + 1) trk"
      by (simp add: Cons_nth_drop_Suc)
    have unfold_sum: "consecutive_distance_sum float_nan (drop (i - 1) trk) =
        js_add (calculateDistance_js float_nan (tp_lat (trk ! (i - 1))) (tp_lon (trk ! (i - 1)))
                  (tp_lat (trk ! i)) (tp_lon (trk ! i)))
          (consecutive_distance_sum float_nan (drop i trk))"
      by (subst d1, subst (1 2) d2) simp
    from True "1.prems" have "track_loop float_nan trk (i + 1)
        (js_add totalKm
           (calculateDistance_js float_nan (tp_lat (trk ! (i - 1))) (tp_lon (trk ! (i - 1)))
              (tp_lat (trk ! i)) (tp_lon (trk ! i)))) =
        js_add (js_add totalKm
           (calculateDistance_js float_nan (tp_lat (trk ! (i - 1))) (tp_lon (trk ! (i - 1)))
              (tp_lat (trk ! i)) (tp_lon (trk ! i))))
          (consecutive_distance_sum float_nan (drop i trk))"
      using "1.IH" by simp
    with True unfold_sum show ?thesis
      by (subst track_loop.simps) (simp add: js_add_assoc)
  next
    case False
    with "1.prems" have i: "i = length trk" by simp
    with "1.prems" have "drop (i - 1) trk = [trk ! (i - 1)]"
      by (metis Cons_nth_drop_Suc Suc_diff_1 diff_less drop_all le_refl less_le_trans zero_less_one)
    with False show ?thesis
      by (subst track_loop.simps) (simp add: js_add_zero)
  qed
qed

lemma js_add_zero_left: "js_add (Num 0) a = a"
  by (cases a) simp_all

lemma track_loop_consecutive_distance_sum:
  "track_loop float_nan trk (Suc 0) (Num 0) = consecutive_distance_sum float_nan trk"
proof (cases trk)
  case Nil
  then show ?thesis by (subst track_loop.simps) simp
next
  case (Cons p ps)
  then show ?thesis using track_loop_from [of 1 trk float_nan "Num 0"]
    by (simp add: js_add_zero_left)
qed

subsection \<open>The status route, case by case\<close>

lemma completed_in_enum: "''completed'' \<in> set order_status_enum"
  by (simp add: order_status_enum_def)

lemma complete_order_eq:
  "complete_order float_nan now order =
    (if 1 < length (tracking order)
     then (case consecutive_distance_sum float_nan (tracking order) of
             NaN \<Rightarrow> (order\<lparr>completedAt := Some now\<rparr>, True)
           | Num s \<Rightarrow>
               (order\<lparr>completedAt := Some now,
                      distance := (distance order)\<lparr>actual_km := Some (Math_round (s * 10) / 10)\<rparr>\<rparr>,
                False))
     else (order\<lparr>completedAt := Some now\<rparr>, False))"
  by (simp add: complete_order_def Let_def track_loop_consecutive_distance_sum split: jsnum.splits)

lemma update_status_not_found:
  "orders d oid = None \<Longrightarrow>
   update_status float_nan user oid new_status now d = (NotFound404, d, [])"
  by (simp add: update_status_def)

lemma update_status_forbidden:
  "orders d oid = Some order \<Longrightarrow> order_driverId order \<noteq> user_id user \<Longrightarrow>
   user_type user \<noteq> ''admin'' \<Longrightarrow>
   update_status float_nan user oid new_status now d = (Forbidden403, d, [])"
  by (simp add: update_status_def)

lemma update_status_invalid:
  "orders d oid = Some order \<Longrightarrow>
   order_driverId order = user_id user \<or> user_type user = ''admin'' \<Longrightarrow>
   new_status \<notin> set order_status_enum \<Longrightarrow>
   update_status float_nan user oid new_status now d = (ServerError500, d, [])"
  using completed_in_enum by (auto simp: update_status_def Let_def)

lemma update_status_other:
  "orders d oid = Some order \<Longrightarrow>
   order_driverId order = user_id user \<or> user_type user = ''admin'' \<Longrightarrow>
   new_status \<in> set order_status_enum \<Longrightarrow> new_status \<noteq> ''completed'' \<Longrightarrow>
   update_status float_nan user oid new_status now d =
     (Ok200,
      d\<lparr>orders := (orders d)(oid \<mapsto>
             (if new_status = ''in_transit''
              then order\<lparr>order_status := new_status, startedAt := Some now\<rparr>
              else order\<lparr>order_status := new_status\<rparr>))\<rparr>,
      [EmitAll (OrderStatus oid new_status)])"
  by (auto simp: update_status_def Let_def)

lemma update_status_completed_short:
  "orders d oid = Some order \<Longrightarrow>
   order_driverId order = user_id user \<or> user_type user = ''admin'' \<Longrightarrow>
   \<not> 1 < length (tracking order) \<Longrightarrow>
   update_status float_nan user oid ''completed'' now d =
     (Ok200,
      d\<lparr>orders := (orders d)(oid \<mapsto> order\<lparr>order_status := ''completed'', completedAt := Some now\<rparr>),
        users := inc_driver_stats (users d) (order_driverId order) 1
                   (num_or (actual_km (distance order)) (num_or (estimated_km (distance order)) 0))\<rparr>,
      [EmitAll (OrderStatus oid ''completed'')])"
  using completed_in_enum by (auto simp: update_status_def Let_def complete_order_eq)

lemma update_status_completed_num:
  "orders d oid = Some order \<Longrightarrow>
   order_driverId order = user_id user \<or> user_type user = ''admin'' \<Longrightarrow>
   1 < length (tracking order) \<Longrightarrow>
   consecutive_distance_sum float_nan (tracking order) = Num s \<Longrightarrow>
   update_status float_nan user oid ''completed'' now d =
     (Ok200,
      d\<lparr>orders := (orders d)(oid \<mapsto>
             order\<lparr>order_status := ''completed'', completedAt := Some now,
                   distance := (distance order)\<lparr>actual_km := Some (Math_round (s * 10) / 10)\<rparr>\<rparr>),
        users := inc_driver_stats (users d) (order_driverId order) 1
                   (num_or (Some (Math_round (s * 10) / 10))
                      (num_or (estimated_km (distance order)) 0))\<rparr>,
      [EmitAll (OrderStatus oid ''completed'')])"
  using completed_in_enum by (auto simp: update_status_def Let_def complete_order_eq)

lemma update_status_completed_nan:
  "orders d oid = Some order \<Longrightarrow>
   order_driverId order = user_id user \<or> user_type user = ''admin'' \<Longrightarrow>
   1 < length (tracking order) \<Longrightarrow>
   consecutive_distance_sum float_nan (tracking order) = NaN \<Longrightarrow>
   update_status float_nan user oid ''completed'' now d =
     (ServerError500,
      d\<lparr>users := inc_driver_stats (users d) (order_driverId order) 1
                   (num_or (actual_km (distance order)) (num_or (estimated_km (distance order)) 0))\<rparr>,
      [])"
  by (auto simp: update_status_def Let_def complete_order_eq)

lemma inc_driver_stats_get:
  "us uid = Some u \<Longrightarrow>
   inc_driver_stats us uid trips km uid =
     Some (u\<lparr>driverProfile_totalTrips := driverProfile_totalTrips u + trips,
             driverProfile_totalKm := driverProfile_totalKm u + km\<rparr>)"
  by (simp add: inc_driver_stats_def)

lemma completed_step:
  assumes "orders d oid = Some order"
    and "order_driverId order = user_id user \<or> user_type user = ''admin''"
    and "users d (order_driverId order) = Some u"
  shows "\<exists>r1 d1 ev1 o1 u1.
           update_status float_nan user oid ''completed'' now d = (r1, d1, ev1)
         \<and> orders d1 oid = Some o1
         \<and> order_driverId o1 = order_driverId order
         \<and> tracking o1 = tracking order
         \<and> users d1 (order_driverId order) = Some u1
         \<and> driverProfile_totalTrips u1 = driverProfile_totalTrips u + 1
         \<and> actual_km (distance o1) =
             (if 1 < length (tracking order)
              then (case consecutive_distance_sum float_nan (tracking order) of
                      NaN \<Rightarrow> actual_km (distance order)
                    | Num s \<Rightarrow> Some (Math_round (s * 10) / 10))
              else actual_km (distance order))
         \<and> ((1 < length (tracking order) \<longrightarrow>
                consecutive_distance_sum float_nan (tracking order) \<noteq> NaN) \<longrightarrow> r1 = Ok200)"
proof (cases "1 < length (tracking order)")
  case False
  with assms show ?thesis
    by (simp add: update_status_completed_short inc_driver_stats_get)
next
  case long: True
  show ?thesis
  proof (cases "consecutive_distance_sum float_nan (tracking order)")
    case NaN
    with assms long show ?thesis
      by (simp add: update_status_completed_nan inc_driver_stats_get)
  next
    case (Num s)
    with assms long show ?thesis
      by (simp add: update_status_completed_num inc_driver_stats_get)
  qed
qed

subsection \<open>Order status updates\<close>

text \<open>
  C2 (as amended). A status update is answered 200 exactly when the order exists, the caller
  is the order's driver or an administrator, the requested status is one of the nine values
  of the schema and, for the status completed on an order with at least two tracked points,
  the distance over these points is a number; the current status of the order plays no part.
  An accepted update stores the requested status. A request that is not answered 200 leaves
  every order, and so its status, as it was and sends nothing; when it is answered 404 or
  403, or asks for a status other than completed, it leaves the whole store as it was.
\<close>

theorem update_status_accepts_any_enum_status:
  "(case update_status float_nan user oid new_status now d of
      (r, d', ev) \<Rightarrow>
        (r = Ok200 \<longleftrightarrow>
           (\<exists>order. orders d oid = Some order
              \<and> (order_driverId order = user_id user \<or> user_type user = ''admin'')
              \<and> (new_status = ''completed'' \<and> 1 < length (tracking order) \<longrightarrow>
                   consecutive_distance_sum float_nan (tracking order) \<noteq> NaN))
           \<and> new_status \<in> set order_status_enum)
        \<and> (r = Ok200 \<longrightarrow> map_option order_status (orders d' oid) = Some new_status)
        \<and> (r \<noteq> Ok200 \<longrightarrow> orders d' = orders d \<and> transactions d' = transactions d \<and> ev = [])
        \<and> (r \<noteq> Ok200 \<and> new_status \<noteq> ''completed'' \<longrightarrow> d' = d)
        \<and> (r = NotFound404 \<or> r = Forbidden403 \<longrightarrow> d' = d))"
proof (cases "orders d oid")
  case None
  then show ?thesis by (simp add: update_status_not_found)
next
  case (Some order)
  show ?thesis
  proof (cases "order_driverId order = user_id user \<or> user_type user = ''admin''")
    case False
    with Some show ?thesis by (simp add: update_status_forbidden)
  next
    case auth: True
    show ?thesis
    proof (cases "new_status \<in> set order_status_enum")
      case False
      with Some auth show ?thesis by (simp add: update_status_invalid)
    next
      case enum: True
      show ?thesis
      proof (cases "new_status = ''completed''")
        case False
        with Some auth enum show ?thesis by (simp add: update_status_other)
      next
        case completed: True
        show ?thesis
        proof (cases "1 < length (tracking order)")
          case False
          with Some auth completed show ?thesis
            by (simp add: update_status_completed_short completed_in_enum)
        next
          case long: True
          show ?thesis
          proof (cases "consecutive_distance_sum float_nan (tracking order)")
            case NaN
            with Some auth completed long show ?thesis
              by (simp add: update_status_completed_nan completed_in_enum)
          next
            case (Num s)
            with Some auth completed long show ?thesis
              by (simp add: update_status_completed_num completed_in_enum)
          qed
        qed
      qed
    qed
  qed
qed

text \<open>
  The same on the example store: the order in transit is set back to pending by its driver,
  a status outside the enum is refused with the store unchanged, and the completion of the
  order with a tracked point that has no latitude is refused with every order unchanged.
\<close>

theorem update_status_accepts_any_enum_status_witness:
  "(case update_status no_float_nan example_driver ''o2'' ''pending'' 7 example_db of
      (r, d', ev) \<Rightarrow> r = Ok200 \<and> map_option order_status (orders d' ''o2'') = Some ''pending'')
   \<and> (case update_status no_float_nan example_driver ''o2'' ''delivered'' 7 example_db of
        (r, d', ev) \<Rightarrow> r \<noteq> Ok200 \<and> d' = example_db \<and> ev = [])
   \<and> (case update_status no_float_nan example_driver ''o4'' ''completed'' 7 example_db of
        (r, d', ev) \<Rightarrow> r \<noteq> Ok200 \<and> orders d' = orders example_db \<and> ev = [])"
proof -
  have o: "orders example_db ''o2'' = Some example_order2"
    "orders example_db ''o4'' = Some example_order4"
    by (simp_all add: example_db_def)
  have a: "order_driverId example_order2 = user_id example_driver"
    "order_driverId example_order4 = user_id example_driver"
    by (simp_all add: example_order2_def example_order4_def example_driver_def)
  have e: "''pending'' \<in> set order_status_enum" "''delivered'' \<notin> set order_status_enum"
    "''completed'' \<in> set order_status_enum"
    by (simp_all add: order_status_enum_def)
  have n: "1 < length (tracking example_order4)"
    "consecutive_distance_sum no_float_nan (tracking example_order4) = NaN"
    by (simp_all add: example_order4_def)
  obtain r1 d1 ev1 where
    u1: "update_status no_float_nan example_driver ''o2'' ''pending'' 7 example_db = (r1, d1, ev1)"
    by (cases "update_status no_float_nan example_driver ''o2'' ''pending'' 7 example_db")
  obtain r2 d2 ev2 where
    u2: "update_status no_float_nan example_driver ''o2'' ''delivered'' 7 example_db = (r2, d2, ev2)"
    by (cases "update_status no_float_nan example_driver ''o2'' ''delivered'' 7 example_db")
  obtain r3 d3 ev3 where
    u3: "update_status no_float_nan example_driver ''o4'' ''completed'' 7 example_db = (r3, d3, ev3)"
    by (cases "update_status no_float_nan example_driver ''o4'' ''completed'' 7 example_db")
  from update_status_accepts_any_enum_status
         [where float_nan = no_float_nan and user = example_driver and oid = "''o2''"
            and new_status = "''pending''" and now = 7 and d = example_db] u1 o a e
  have p1: "r1 = Ok200 \<and> map_option order_status (orders d1 ''o2'') = Some ''pending''"
    by simp
  from update_status_accepts_any_enum_status
         [where float_nan = no_float_nan and user = example_driver and oid = "''o2''"
            and new_status = "''delivered''" and now = 7 and d = example_db] u2 o a e
  have p2: "r2 \<noteq> Ok200 \<and> d2 = example_db \<and> ev2 = []"
    by simp
  from update_status_accepts_any_enum_status
         [where float_nan = no_float_nan and user = example_driver and oid = "''o4''"
            and new_status = "''completed''" and now = 7 and d = example_db] u3 o a e n
  have p3: "r3 \<noteq> Ok200 \<and> orders d3 = orders example_db \<and> ev3 = []"
    by simp
  from p1 p2 p3 u1 u2 u3 show ?thesis by simp
qed

text \<open>
  C2 as stated fails: the driver moves a pending order to completed in one request, and the
  request is accepted.
\<close>

theorem pending_to_completed_is_accepted:
  "map_option order_status (orders example_db ''o3'') = Some ''pending''
   \<and> (case update_status no_float_nan example_driver ''o3'' ''completed'' 7 example_db of
        (r, d', ev) \<Rightarrow> r = Ok200 \<and> map_option order_status (orders d' ''o3'') = Some ''completed'')"
proof -
  have o: "orders example_db ''o3'' = Some example_order3"
    by (simp add: example_db_def)
  have a: "order_driverId example_order3 = user_id example_driver \<or> user_type example_driver = ''admin''"
    by (simp add: example_order3_def example_driver_def)
  have s: "\<not> 1 < length (tracking example_order3)"
    by (simp add: example_order3_def)
  show ?thesis
    by (simp add: update_status_completed_short [OF o a s] o)
       (simp add: example_order3_def)
qed

text \<open>
  C5 (as amended). For an order with at least two tracked points whose driver has a user
  document, and whose sum of distances between consecutive tracked points is a number
  \<open>s\<close>: a status update to completed by the driver or an administrator is answered 200,
  sets \<^verbatim>\<open>actual_km\<close> to \<open>s\<close> rounded to one decimal, adds 1 to the driver's trip count,
  and adds to the driver's distance the actual distance when it is not zero, else the
  estimated distance when there is one, else zero.
\<close>

theorem completed_sets_actual_km_and_driver_stats:
  assumes "orders d oid = Some order"
    and "order_driverId order = user_id user \<or> user_type user = ''admin''"
    and "2 \<le> length (tracking order)"
    and "users d (order_driverId order) = Some u"
    and "consecutive_distance_sum float_nan (tracking order) = Num s"
  shows "\<exists>d' ev order' u'.
           update_status float_nan user oid ''completed'' now d = (Ok200, d', ev)
         \<and> orders d' oid = Some order'
         \<and> users d' (order_driverId order) = Some u'
         \<and> actual_km (distance order') = Some (Math_round (s * 10) / 10)
         \<and> driverProfile_totalTrips u' = driverProfile_totalTrips u + 1
         \<and> driverProfile_totalKm u' = driverProfile_totalKm u +
             (if Math_round (s * 10) / 10 \<noteq> 0
              then Math_round (s * 10) / 10
              else (case estimated_km (distance order) of Some e \<Rightarrow> e | None \<Rightarrow> 0))"
proof -
  from assms(3) have len: "1 < length (tracking order)" by simp
  have km: "num_or (Some (Math_round (s * 10) / 10))
              (num_or (estimated_km (distance order)) 0) =
            (if Math_round (s * 10) / 10 \<noteq> 0
              then Math_round (s * 10) / 10
              else (case estimated_km (distance order) of Some e \<Rightarrow> e | None \<Rightarrow> 0))"
    by (cases "estimated_km (distance order)") auto
  show ?thesis
    using assms(4) km
    by (simp add: update_status_completed_num [OF assms(1,2) len assms(5)] inc_driver_stats_get)
qed

text \<open>
  The same for the order tracked at (6.37, 2.39), (6.40, 2.42), (6.45, 2.50): the sum is the
  number made of the two consecutive distances, and the actual distance is that sum rounded.
\<close>

theorem completed_sets_actual_km_and_driver_stats_witness:
  "2 \<le> length (tracking example_order1)
   \<and> consecutive_distance_sum no_float_nan (tracking example_order1) =
       Num (calculateDistance 6.37 2.39 6.4 2.42 + calculateDistance 6.4 2.42 6.45 2.5)
   \<and> (\<exists>d' ev order' u'.
         update_status no_float_nan example_driver ''o1'' ''completed'' 7 example_db = (Ok200, d', ev)
       \<and> orders d' ''o1'' = Some order' \<and> users d' ''d1'' = Some u'
       \<and> actual_km (distance order') =
           Some (Math_round ((calculateDistance 6.37 2.39 6.4 2.42
                              + calculateDistance 6.4 2.42 6.45 2.5) * 10) / 10)
       \<and> driverProfile_totalTrips u' = 1)"
proof -
  have o: "orders example_db ''o1'' = Some example_order1"
    by (simp add: example_db_def)
  have a: "order_driverId example_order1 = user_id example_driver \<or> user_type example_driver = ''admin''"
    by (simp add: example_order1_def example_driver_def)
  have l: "2 \<le> length (tracking example_order1)"
    by (simp add: example_order1_def)
  have u: "users example_db (order_driverId example_order1) =
      Some \<lparr>driverProfile_totalTrips = 0, driverProfile_totalKm = 0, wallet_balance = 0\<rparr>"
    by (simp add: example_db_def example_order1_def)
  have s: "consecutive_distance_sum no_float_nan (tracking example_order1) =
      Num (calculateDistance 6.37 2.39 6.4 2.42 + calculateDistance 6.4 2.42 6.45 2.5)"
    by (simp add: example_order1_def no_float_nan_def)
  have i: "order_driverId example_order1 = ''d1''"
    by (simp add: example_order1_def)
  from completed_sets_actual_km_and_driver_stats [OF o a l u s, of 7] l s
  show ?thesis unfolding i by auto
qed

text \<open>
  C5 as stated fails where the actual distance rounds to zero: the order has two tracked
  points, its actual distance is computed as 0, and the driver's distance grows by the
  estimated 12 km instead.
\<close>

theorem short_trip_counts_estimated_km:
  "2 \<le> length (tracking example_order2)
   \<and> (case update_status no_float_nan example_driver ''o2'' ''completed'' 7 example_db of
        (r, d', ev) \<Rightarrow>
          r = Ok200
        \<and> map_option (\<lambda>order. actual_km (distance order)) (orders d' ''o2'') = Some (Some 0)
        \<and> map_option driverProfile_totalKm (users d' ''d1'') = Some 12)"
proof -
  have o: "orders example_db ''o2'' = Some example_order2"
    by (simp add: example_db_def)
  have a: "order_driverId example_order2 = user_id example_driver \<or> user_type example_driver = ''admin''"
    by (simp add: example_order2_def example_driver_def)
  have s: "consecutive_distance_sum no_float_nan (tracking example_order2) = Num 0"
    by (simp add: example_order2_def no_float_nan_def calculateDistance_same)
  have l: "1 < length (tracking example_order2)"
    by (simp add: example_order2_def)
  have f: "order_driverId example_order2 = ''d1''" "estimated_km (distance example_order2) = Some 12"
    by (simp_all add: example_order2_def)
  have u: "users example_db ''d1'' =
      Some \<lparr>driverProfile_totalTrips = 0, driverProfile_totalKm = 0, wallet_balance = 0\<rparr>"
    by (simp add: example_db_def)
  show ?thesis
    using l u
    by (simp add: update_status_completed_num [OF o a l s] Math_round_0 f inc_driver_stats_get)
qed

text \<open>
  C9 (as amended). For an order whose driver has a user document: a status update to a
  status other than completed leaves \<^verbatim>\<open>actual_km\<close> and every user document as they
  were. A status update to completed is not guarded by the current status: each one adds 1
  to the driver's trip count, so two in a row add 2. When the order has fewer than two
  tracked points or the distance over them is a number, both are answered 200 and the second
  computes \<^verbatim>\<open>actual_km\<close> again, to the value the first one stored.
\<close>

theorem repeated_completion_reapplies_stats:
  assumes "orders d oid = Some order"
    and "order_driverId order = user_id user \<or> user_type user = ''admin''"
    and "users d (order_driverId order) = Some u"
  shows "(new_status \<noteq> ''completed'' \<longrightarrow>
           (case update_status float_nan user oid new_status now d of
              (r, d', ev) \<Rightarrow>
                users d' = users d
              \<and> map_option (\<lambda>x. actual_km (distance x)) (orders d' oid) =
                  Some (actual_km (distance order))))
       \<and> (case update_status float_nan user oid ''completed'' now d of
            (r1, d1, ev1) \<Rightarrow>
              (case update_status float_nan user oid ''completed'' now' d1 of
                 (r2, d2, ev2) \<Rightarrow>
                   map_option driverProfile_totalTrips (users d1 (order_driverId order)) =
                     Some (driverProfile_totalTrips u + 1)
                 \<and> map_option driverProfile_totalTrips (users d2 (order_driverId order)) =
                     Some (driverProfile_totalTrips u + 2)
                 \<and> ((1 < length (tracking order) \<longrightarrow>
                        consecutive_distance_sum float_nan (tracking order) \<noteq> NaN) \<longrightarrow>
                      r1 = Ok200 \<and> r2 = Ok200
                    \<and> map_option (\<lambda>x. actual_km (distance x)) (orders d2 oid) =
                        map_option (\<lambda>x. actual_km (distance x)) (orders d1 oid))))"
proof -
  have other: "new_status \<noteq> ''completed'' \<Longrightarrow>
      (case update_status float_nan user oid new_status now d of
         (r, d', ev) \<Rightarrow>
           users d' = users d
         \<and> map_option (\<lambda>x. actual_km (distance x)) (orders d' oid) =
             Some (actual_km (distance order)))"
  proof (cases "new_status \<in> set order_status_enum")
    case True
    assume "new_status \<noteq> ''completed''"
    with True assms(1,2) show ?thesis by (simp add: update_status_other)
  next
    case False
    with assms(1,2) show ?thesis by (simp add: update_status_invalid)
  qed
  from completed_step [OF assms, of float_nan now]
  obtain r1 d1 ev1 o1 u1 where
    first: "update_status float_nan user oid ''completed'' now d = (r1, d1, ev1)"
    and o1: "orders d1 oid = Some o1"
    and drv: "order_driverId o1 = order_driverId order"
    and trk: "tracking o1 = tracking order"
    and u1: "users d1 (order_driverId order) = Some u1"
    and t1: "driverProfile_totalTrips u1 = driverProfile_totalTrips u + 1"
    and k1: "actual_km (distance o1) =
             (if 1 < length (tracking order)
              then (case consecutive_distance_sum float_nan (tracking order) of
                      NaN \<Rightarrow> actual_km (distance order)
                    | Num s \<Rightarrow> Some (Math_round (s * 10) / 10))
              else actual_km (distance order))"
    and ok1: "(1 < length (tracking order) \<longrightarrow>
                consecutive_distance_sum float_nan (tracking order) \<noteq> NaN) \<longrightarrow> r1 = Ok200"
    by blast
  from assms(2) drv have a1: "order_driverId o1 = user_id user \<or> user_type user = ''admin''"
    by simp
  from u1 drv have u1': "users d1 (order_driverId o1) = Some u1" by simp
  from completed_step [OF o1 a1 u1', of float_nan now']
  obtain r2 d2 ev2 o2 u2 where
    second: "update_status float_nan user oid ''completed'' now' d1 = (r2, d2, ev2)"
    and o2: "orders d2 oid = Some o2"
    and u2: "users d2 (order_driverId o1) = Some u2"
    and t2: "driverProfile_totalTrips u2 = driverProfile_totalTrips u1 + 1"
    and k2: "actual_km (distance o2) =
             (if 1 < length (tracking o1)
              then (case consecutive_distance_sum float_nan (tracking o1) of
                      NaN \<Rightarrow> actual_km (distance o1)
                    | Num s \<Rightarrow> Some (Math_round (s * 10) / 10))
              else actual_km (distance o1))"
    and ok2: "(1 < length (tracking o1) \<longrightarrow>
                consecutive_distance_sum float_nan (tracking o1) \<noteq> NaN) \<longrightarrow> r2 = Ok200"
    by blast
  have same: "actual_km (distance o2) = actual_km (distance o1)"
    unfolding k2 trk using k1 by (simp split: jsnum.splits)
  from other first second o1 o2 u1 u2 t1 t2 drv trk ok1 ok2 same show ?thesis
    by simp
qed

text \<open>The same on the example store, for the first order and its driver.\<close>

theorem repeated_completion_reapplies_stats_witness:
  "(case update_status no_float_nan example_driver ''o1'' ''loading'' 7 example_db of
      (r, d', ev) \<Rightarrow>
        users d' = users example_db
      \<and> map_option (\<lambda>x. actual_km (distance x)) (orders d' ''o1'') = Some None)
   \<and> (case update_status no_float_nan example_driver ''o1'' ''completed'' 7 example_db of
        (r1, d1, ev1) \<Rightarrow>
          (case update_status no_float_nan example_driver ''o1'' ''completed'' 8 d1 of
             (r2, d2, ev2) \<Rightarrow>
               r1 = Ok200 \<and> r2 = Ok200
             \<and> map_option driverProfile_totalTrips (users d1 ''d1'') = Some 1
             \<and> map_option driverProfile_totalTrips (users d2 ''d1'') = Some 2))"
proof -
  have o: "orders example_db ''o1'' = Some example_order1"
    by (simp add: example_db_def)
  have a: "order_driverId example_order1 = user_id example_driver \<or> user_type example_driver = ''admin''"
    by (simp add: example_order1_def example_driver_def)
  have u: "users example_db (order_driverId example_order1) =
      Some \<lparr>driverProfile_totalTrips = 0, driverProfile_totalKm = 0, wallet_balance = 0\<rparr>"
    by (simp add: example_db_def example_order1_def)
  have f: "order_driverId example_order1 = ''d1''" "actual_km (distance example_order1) = None"
    by (simp_all add: example_order1_def)
  have s: "consecutive_distance_sum no_float_nan (tracking example_order1) \<noteq> NaN"
    by (simp add: example_order1_def no_float_nan_def)
  have n: "''loading'' \<noteq> ''completed''" by simp
  from repeated_completion_reapplies_stats
         [OF o a u, where float_nan = no_float_nan and new_status = "''loading''"
            and now = 7 and now' = 8] n s
  show ?thesis unfolding f by (auto split: prod.splits)
qed

text \<open>
  C9 as stated fails: completing the second example order twice counts two trips and
  24 km for the driver, and moves the completion time.
\<close>

theorem second_completion_counts_trip_again:
  "(case update_status no_float_nan example_driver ''o2'' ''completed'' 7 example_db of
      (r1, d1, ev1) \<Rightarrow>
        (case update_status no_float_nan example_driver ''o2'' ''completed'' 8 d1 of
           (r2, d2, ev2) \<Rightarrow>
             r1 = Ok200 \<and> r2 = Ok200
           \<and> map_option order_status (orders d1 ''o2'') = Some ''completed''
           \<and> map_option driverProfile_totalTrips (users d1 ''d1'') = Some 1
           \<and> map_option driverProfile_totalKm (users d1 ''d1'') = Some 12
           \<and> map_option driverProfile_totalTrips (users d2 ''d1'') = Some 2
           \<and> map_option driverProfile_totalKm (users d2 ''d1'') = Some 24
           \<and> map_option completedAt (orders d1 ''o2'') = Some (Some 7)
           \<and> map_option completedAt (orders d2 ''o2'') = Some (Some 8)))"
proof -
  have o: "orders example_db ''o2'' = Some example_order2"
    by (simp add: example_db_def)
  have a: "order_driverId example_order2 = user_id example_driver \<or> user_type example_driver = ''admin''"
    by (simp add: example_order2_def example_driver_def)
  have s: "consecutive_distance_sum no_float_nan (tracking example_order2) = Num 0"
    by (simp add: example_order2_def no_float_nan_def calculateDistance_same)
  have l: "1 < length (tracking example_order2)"
    by (simp add: example_order2_def)
  have f: "order_driverId example_order2 = ''d1''" "estimated_km (distance example_order2) = Some 12"
    by (simp_all add: example_order2_def)
  have u: "users example_db ''d1'' =
      Some \<lparr>driverProfile_totalTrips = 0, driverProfile_totalKm = 0, wallet_balance = 0\<rparr>"
    by (simp add: example_db_def)
  define oc where "oc = example_order2\<lparr>order_status := ''completed'', completedAt := Some 7,
      distance := (distance example_order2)\<lparr>actual_km := Some 0\<rparr>\<rparr>"
  define d1 where "d1 = example_db\<lparr>orders := (orders example_db)(''o2'' \<mapsto> oc),
        users := (users example_db)(''d1'' \<mapsto>
          \<lparr>driverProfile_totalTrips = 1, driverProfile_totalKm = 12, wallet_balance = 0\<rparr>)\<rparr>"
  have first: "update_status no_float_nan example_driver ''o2'' ''completed'' 7 example_db =
      (Ok200, d1, [EmitAll (OrderStatus ''o2'' ''completed'')])"
    using u
    by (simp add: update_status_completed_num [OF o a l s] Math_round_0 f
        inc_driver_stats_def d1_def oc_def)
  have o1: "orders d1 ''o2'' = Some oc" by (simp add: d1_def)
  have a1: "order_driverId oc = user_id example_driver \<or> user_type example_driver = ''admin''"
    using a by (simp add: oc_def)
  have g: "order_driverId oc = ''d1''" "estimated_km (distance oc) = Some 12"
    "tracking oc = tracking example_order2"
    by (simp_all add: oc_def f)
  have l1: "1 < length (tracking oc)" using l g by simp
  have s1: "consecutive_distance_sum no_float_nan (tracking oc) = Num 0" using s g by simp
  have u1: "users d1 ''d1'' =
      Some \<lparr>driverProfile_totalTrips = 1, driverProfile_totalKm = 12, wallet_balance = 0\<rparr>"
    by (simp add: d1_def)
  show ?thesis
    using u1
    by (simp add: first update_status_completed_num [OF o1 a1 l1 s1] o1 g Math_round_0
        inc_driver_stats_def)
       (simp add: oc_def)
qed

subsection \<open>Wallet recharge confirmation\<close>

lemma confirm_recharge_admin:
  "user_type user = ''admin'' \<Longrightarrow> transactions d tid = Some t \<Longrightarrow>
   confirm_recharge user tid now d =
     (Ok200,
      d\<lparr>transactions := (transactions d)(tid \<mapsto>
             t\<lparr>tx_status := ''confirmed'', tx_confirmedAt := Some now,
               tx_confirmedBy := Some (user_id user)\<rparr>),
        users := inc_wallet_balance (users d) (tx_userId t) (tx_amount t)\<rparr>)"
  by (simp add: confirm_recharge_def Let_def)

lemma inc_wallet_balance_get:
  "inc_wallet_balance us uid x uid' =
     (if uid' = uid then map_option (\<lambda>u. u\<lparr>wallet_balance := wallet_balance u + x\<rparr>) (us uid)
      else us uid')"
  by (simp add: inc_wallet_balance_def split: option.splits)

lemma inc_wallet_balance_None: "us uid = None \<Longrightarrow> inc_wallet_balance us uid x = us"
  by (simp add: inc_wallet_balance_def)

lemma confirm_recharge_fold:
  "user_type user = ''admin'' \<Longrightarrow> transactions d tid = Some t \<Longrightarrow>
   users d (tx_userId t) = Some u \<Longrightarrow>
   map_option wallet_balance
     (users (fold (\<lambda>now d. snd (confirm_recharge user tid now d)) nows d) (tx_userId t)) =
   Some (wallet_balance u + of_nat (length nows) * tx_amount t)"
proof (induction nows arbitrary: d t u)
  case Nil
  then show ?case by simp
next
  case (Cons now nows)
  let ?t' = "t\<lparr>tx_status := ''confirmed'', tx_confirmedAt := Some now,
               tx_confirmedBy := Some (user_id user)\<rparr>"
  let ?d' = "snd (confirm_recharge user tid now d)"
  let ?u' = "u\<lparr>wallet_balance := wallet_balance u + tx_amount t\<rparr>"
  from Cons.prems have t': "transactions ?d' tid = Some ?t'"
    by (simp add: confirm_recharge_admin)
  from Cons.prems have u': "users ?d' (tx_userId ?t') = Some ?u'"
    by (simp add: confirm_recharge_admin inc_wallet_balance_get)
  from Cons.IH [OF Cons.prems(1) t' u'] show ?case
    by (simp add: algebra_simps)
qed

text \<open>
  C3 (as amended). The confirmation of an existing transaction by an administrator is
  answered 200 and marks the transaction confirmed; when the owning user has a document its
  balance grows by the transaction's amount, and when it has none the transaction is
  confirmed all the same and no user document changes. No other user's document changes.
  The route does not look at the transaction's status: each further confirmation adds the
  amount again, so \<open>n\<close> confirmations add \<open>n\<close> times the amount.
\<close>

theorem confirm_recharge_credits_on_every_call:
  assumes "user_type user = ''admin''" and "transactions d tid = Some t"
  shows "(case confirm_recharge user tid now d of
            (r, d') \<Rightarrow>
              r = Ok200
            \<and> map_option tx_status (transactions d' tid) = Some ''confirmed''
            \<and> (case users d (tx_userId t) of
                  None \<Rightarrow> users d' = users d
                | Some u \<Rightarrow> map_option wallet_balance (users d' (tx_userId t)) =
                             Some (wallet_balance u + tx_amount t))
            \<and> (\<forall>uid. uid \<noteq> tx_userId t \<longrightarrow> users d' uid = users d uid))
       \<and> (\<forall>u nows. users d (tx_userId t) = Some u \<longrightarrow>
             map_option wallet_balance
               (users (fold (\<lambda>now d. snd (confirm_recharge user tid now d)) nows d)
                  (tx_userId t)) =
             Some (wallet_balance u + of_nat (length nows) * tx_amount t))"
  using assms
  by (auto simp: confirm_recharge_admin inc_wallet_balance_get inc_wallet_balance_None
      confirm_recharge_fold split: option.splits)

text \<open>The same on the example store: one confirmation credits 5000, three credit 15000.\<close>

theorem confirm_recharge_credits_on_every_call_witness:
  "(case confirm_recharge example_admin ''t1'' 5 example_db of
      (r, d') \<Rightarrow>
        r = Ok200
      \<and> map_option tx_status (transactions d' ''t1'') = Some ''confirmed''
      \<and> map_option wallet_balance (users d' ''d1'') = Some 5000)
   \<and> map_option wallet_balance
        (users (fold (\<lambda>now d. snd (confirm_recharge example_admin ''t1'' now d)) [5, 6, 7]
                  example_db) ''d1'') = Some 15000"
proof -
  have a: "user_type example_admin = ''admin''"
    by (simp add: example_admin_def)
  have t: "transactions example_db ''t1'' =
      Some \<lparr>tx_userId = ''d1'', tx_type = ''recharge'', tx_amount = 5000,
            tx_status = ''pending'', tx_confirmedAt = None, tx_confirmedBy = None\<rparr>"
    by (simp add: example_db_def)
  have u: "users example_db ''d1'' =
      Some \<lparr>driverProfile_totalTrips = 0, driverProfile_totalKm = 0, wallet_balance = 0\<rparr>"
    by (simp add: example_db_def)
  note T = confirm_recharge_credits_on_every_call [OF a t, of 5]
  from T u have p1: "(case confirm_recharge example_admin ''t1'' 5 example_db of
      (r, d') \<Rightarrow>
        r = Ok200
      \<and> map_option tx_status (transactions d' ''t1'') = Some ''confirmed''
      \<and> map_option wallet_balance (users d' ''d1'') = Some 5000)"
    by (auto split: prod.splits)
  from conjunct2 [OF T,
      THEN spec [where x = "\<lparr>driverProfile_totalTrips = 0, driverProfile_totalKm = 0,
                             wallet_balance = 0\<rparr>"],
      THEN spec [where x = "[5, 6, 7]"]] u
  have p2: "map_option wallet_balance
        (users (fold (\<lambda>now d. snd (confirm_recharge example_admin ''t1'' now d)) [5, 6, 7]
                  example_db) ''d1'') = Some 15000"
    by simp
  from p1 p2 show ?thesis by blast
qed

text \<open>
  C3 as stated fails: the transaction is confirmed after the first call, and the second call
  credits the wallet a second time.
\<close>

theorem second_confirm_credits_again:
  "(case confirm_recharge example_admin ''t1'' 5 example_db of
      (r1, d1) \<Rightarrow>
        (case confirm_recharge example_admin ''t1'' 6 d1 of
           (r2, d2) \<Rightarrow>
             r1 = Ok200 \<and> r2 = Ok200
           \<and> map_option tx_status (transactions d1 ''t1'') = Some ''confirmed''
           \<and> map_option wallet_balance (users d1 ''d1'') = Some 5000
           \<and> map_option tx_status (transactions d2 ''t1'') = Some ''confirmed''
           \<and> map_option wallet_balance (users d2 ''d1'') = Some 10000))"
  by (simp add: confirm_recharge_def example_db_def example_admin_def Let_def
      inc_wallet_balance_def)

subsection \<open>Order creation: the price\<close>

text \<open>
  C4 (as amended). For the transport service type with both latitudes present and not
  zero, a vehicle minimum price \<open>M\<close> and a per-km rate \<open>R\<close>: the amount is the maximum of
  \<open>M\<close> (5000 when \<open>M\<close> is zero) and the haversine distance times \<open>R\<close> (500 when \<open>R\<close> is
  zero); the platform fee is the amount times 0.15, rounded; the driver's share is the
  amount less the fee; fee and share add up to the amount.
\<close>

theorem order_payment_transport:
  assumes "serviceType = ''transport''"
    and "geo_lat pickup = Some plat" and "plat \<noteq> 0"
    and "dropoff = Some dp" and "geo_lat dp = Some dlat" and "dlat \<noteq> 0"
    and "minimumPrice vehicle_pricing = Some M" and "pricePerKm vehicle_pricing = Some R"
  shows "amount (order_payment vehicle_pricing serviceType pickup dropoff) =
           max (if M \<noteq> 0 then M else 5000)
               (calculateDistance plat (geo_lon pickup) dlat (geo_lon dp)
                  * (if R \<noteq> 0 then R else 500))
       \<and> platformFee (order_payment vehicle_pricing serviceType pickup dropoff) =
           Math_round (amount (order_payment vehicle_pricing serviceType pickup dropoff) * (15 / 100))
       \<and> driverShare (order_payment vehicle_pricing serviceType pickup dropoff) =
           amount (order_payment vehicle_pricing serviceType pickup dropoff)
           - platformFee (order_payment vehicle_pricing serviceType pickup dropoff)
       \<and> platformFee (order_payment vehicle_pricing serviceType pickup dropoff)
           + driverShare (order_payment vehicle_pricing serviceType pickup dropoff) =
           amount (order_payment vehicle_pricing serviceType pickup dropoff)"
  using assms by (simp add: order_payment_def Let_def)

text \<open>
  The same for a minimum price of 10000 and a rate of 600: between two distinct points, and
  between a point and itself, where the amount is the minimum price, the fee 1500 and the
  share 8500.
\<close>

theorem order_payment_transport_witness:
  "amount (order_payment \<lparr>pricePerKm = Some 600, minimumPrice = Some 10000\<rparr> ''transport''
             \<lparr>geo_lat = Some 6.37, geo_lon = 2.39\<rparr> (Some \<lparr>geo_lat = Some 6.45, geo_lon = 2.5\<rparr>)) =
     max 10000 (calculateDistance 6.37 2.39 6.45 2.5 * 600)
   \<and> amount (order_payment \<lparr>pricePerKm = Some 600, minimumPrice = Some 10000\<rparr> ''transport''
             \<lparr>geo_lat = Some 6.37, geo_lon = 2.39\<rparr> (Some \<lparr>geo_lat = Some 6.37, geo_lon = 2.39\<rparr>)) =
     10000
   \<and> platformFee (order_payment \<lparr>pricePerKm = Some 600, minimumPrice = Some 10000\<rparr> ''transport''
             \<lparr>geo_lat = Some 6.37, geo_lon = 2.39\<rparr> (Some \<lparr>geo_lat = Some 6.37, geo_lon = 2.39\<rparr>)) =
     1500
   \<and> driverShare (order_payment \<lparr>pricePerKm = Some 600, minimumPrice = Some 10000\<rparr> ''transport''
             \<lparr>geo_lat = Some 6.37, geo_lon = 2.39\<rparr> (Some \<lparr>geo_lat = Some 6.37, geo_lon = 2.39\<rparr>)) =
     8500"
proof -
  note T1 = order_payment_transport
      [where serviceType = "''transport''" and pickup = "\<lparr>geo_lat = Some 6.37, geo_lon = 2.39\<rparr>"
         and plat = "6.37" and dropoff = "Some \<lparr>geo_lat = Some 6.45, geo_lon = 2.5\<rparr>"
         and dp = "\<lparr>geo_lat = Some 6.45, geo_lon = 2.5\<rparr>" and dlat = "6.45"
         and vehicle_pricing = "\<lparr>pricePerKm = Some 600, minimumPrice = Some 10000\<rparr>"
         and M = 10000 and R = 600]
  note T2 = order_payment_transport
      [where serviceType = "''transport''" and pickup = "\<lparr>geo_lat = Some 6.37, geo_lon = 2.39\<rparr>"
         and plat = "6.37" and dropoff = "Some \<lparr>geo_lat = Some 6.37, geo_lon = 2.39\<rparr>"
         and dp = "\<lparr>geo_lat = Some 6.37, geo_lon = 2.39\<rparr>" and dlat = "6.37"
         and vehicle_pricing = "\<lparr>pricePerKm = Some 600, minimumPrice = Some 10000\<rparr>"
         and M = 10000 and R = 600]
  have r: "Math_round (10000 * (15 / 100)) = 1500"
    by (simp add: Math_round_def)
  from T1 have p1: "amount (order_payment \<lparr>pricePerKm = Some 600, minimumPrice = Some 10000\<rparr> ''transport''
             \<lparr>geo_lat = Some 6.37, geo_lon = 2.39\<rparr> (Some \<lparr>geo_lat = Some 6.45, geo_lon = 2.5\<rparr>)) =
     max 10000 (calculateDistance 6.37 2.39 6.45 2.5 * 600)"
    by simp
  from T2 have p2: "amount (order_payment \<lparr>pricePerKm = Some 600, minimumPrice = Some 10000\<rparr> ''transport''
             \<lparr>geo_lat = Some 6.37, geo_lon = 2.39\<rparr> (Some \<lparr>geo_lat = Some 6.37, geo_lon = 2.39\<rparr>)) =
     10000"
    by (simp add: calculateDistance_same)
  from T2 p2 r show ?thesis using p1 by simp
qed

text \<open>
  C4 as stated fails at \<open>M = 0\<close>, \<open>R = 0\<close>: the amount is 5000 where the claim gives
  \<open>max(M, D \<times> R) = 0\<close>.
\<close>

theorem zero_minimum_price_is_replaced:
  "amount (order_payment \<lparr>pricePerKm = Some 0, minimumPrice = Some 0\<rparr> ''transport''
             \<lparr>geo_lat = Some 6.37, geo_lon = 2.39\<rparr> (Some \<lparr>geo_lat = Some 6.37, geo_lon = 2.39\<rparr>)) =
     5000
   \<and> max 0 (calculateDistance 6.37 2.39 6.37 2.39 * 0) = 0
   \<and> platformFee (order_payment \<lparr>pricePerKm = Some 0, minimumPrice = Some 0\<rparr> ''transport''
             \<lparr>geo_lat = Some 6.37, geo_lon = 2.39\<rparr> (Some \<lparr>geo_lat = Some 6.37, geo_lon = 2.39\<rparr>)) =
     750"
  by (simp add: order_payment_def Let_def calculateDistance_same Math_round_def)

end
